theory Spec2Isabelle
  imports Main
begin

section \<open>The OpenTMI client transport layer\<close>

text \<open>
  A shallow embedding of \<^verbatim>\<open>opentmi_client/transport/transport.py\<close>: the class
  \<^verbatim>\<open>Transport\<close> with its host and token, the three verbs \<^verbatim>\<open>get_json\<close>,
  \<^verbatim>\<open>post_json\<close> and \<^verbatim>\<open>put_json\<close>, and the predicate \<^verbatim>\<open>is_success\<close>.
  Exceptions are values of a sum type, the logger and the HTTP client are made explicit as
  a list of events that every method returns beside its outcome, and the answer of the HTTP
  library to a request is a parameter of each verb.
\<close>

subsection \<open>Python values\<close>

datatype pyval =
    PNone
  | PBool bool
  | PInt int
  | PStr string
  | PList "pyval list"
  | PDict "(string \<times> pyval) list"

text \<open>Python's truth value of an object, as \<^verbatim>\<open>if x\<close> and \<^verbatim>\<open>not x\<close> test it.\<close>

fun truthy :: "pyval \<Rightarrow> bool" where
  "truthy PNone = False"
| "truthy (PBool b) = b"
| "truthy (PInt i) = (i \<noteq> 0)"
| "truthy (PStr s) = (s \<noteq> [])"
| "truthy (PList xs) = (xs \<noteq> [])"
| "truthy (PDict kvs) = (kvs \<noteq> [])"

definition py_not :: "pyval \<Rightarrow> bool" where
  "py_not v = (\<not> truthy v)"

text \<open>An optional string (\<^verbatim>\<open>None\<close> or a \<^verbatim>\<open>str\<close>) as a Python value.\<close>

fun py_of_opt :: "string option \<Rightarrow> pyval" where
  "py_of_opt None = PNone"
| "py_of_opt (Some s) = PStr s"

text \<open>\<^verbatim>\<open>str(n)\<close> for an integer: its decimal digits, with a sign when negative.\<close>

fun str_nat :: "nat \<Rightarrow> string" where
  "str_nat n =
     (if n < 10 then [char_of (48 + n)]
      else str_nat (n div 10) @ [char_of (48 + n mod 10)])"

declare str_nat.simps [simp del]

definition str_int :: "int \<Rightarrow> string" where
  "str_int i = (if i < 0 then CHR ''-'' # str_nat (nat (- i)) else str_nat (nat i))"

text \<open>\<^verbatim>\<open>str(x)\<close> for an integer or \<^verbatim>\<open>None\<close>.\<close>

fun str_status :: "int option \<Rightarrow> string" where
  "str_status None = ''None''"
| "str_status (Some i) = str_int i"

subsection \<open>Exceptions\<close>

text \<open>
  The exception classes that the handlers of the module tell apart, each carrying the text
  that \<^verbatim>\<open>str(error)\<close> gives. An exception of several of these classes is the first that
  the handlers test for; \<open>OtherException\<close> is any other subclass of \<^verbatim>\<open>Exception\<close>.
\<close>

datatype py_error =
    RequestException string
  | ValueError string
  | TypeError string
  | KeyError string
  | AssertionError string
  | OtherException string

fun str_error :: "py_error \<Rightarrow> string" where
  "str_error (RequestException m) = m"
| "str_error (ValueError m) = m"
| "str_error (TypeError m) = m"
| "str_error (KeyError m) = m"
| "str_error (AssertionError m) = m"
| "str_error (OtherException m) = m"

text \<open>
  Modelled from the spec: \<^verbatim>\<open>TransportException\<close> is imported from
  \<^verbatim>\<open>opentmi_client.utils\<close>, a module other than this one. It is the single
  error kind of the transport layer, an exception of its own (none of the classes above)
  that carries a message and an optional status code; the module calls it as
  \<^verbatim>\<open>TransportException(message)\<close> and \<^verbatim>\<open>TransportException(message, code)\<close>. The
  message is a string, or the caught exception object where the source passes
  \<^verbatim>\<open>error\<close> rather than \<^verbatim>\<open>str(error)\<close>.
\<close>

datatype te_message = Text string | ErrorObject py_error

datatype raised =
    PyError py_error
  | TransportException te_message "int option"

subsection \<open>Requests, responses and events\<close>

text \<open>
  A call of \<^verbatim>\<open>requests.get\<close>, \<^verbatim>\<open>requests.post\<close> or \<^verbatim>\<open>requests.put\<close> with the
  arguments that the module passes, in the order of the source.
\<close>

datatype request =
    Get string pyval int pyval
  | Post string pyval pyval pyval int
  | Put string pyval pyval int

fun req_headers :: "request \<Rightarrow> pyval" where
  "req_headers (Get url hdrs tmo params) = hdrs"
| "req_headers (Post url payload hdrs files tmo) = hdrs"
| "req_headers (Put url payload hdrs tmo) = hdrs"

fun req_timeout :: "request \<Rightarrow> int" where
  "req_timeout (Get url hdrs tmo params) = tmo"
| "req_timeout (Post url payload hdrs files tmo) = tmo"
| "req_timeout (Put url payload hdrs tmo) = tmo"

fun req_files :: "request \<Rightarrow> pyval option" where
  "req_files (Get url hdrs tmo params) = None"
| "req_files (Post url payload hdrs files tmo) = Some files"
| "req_files (Put url payload hdrs tmo) = None"

text \<open>
  A \<^verbatim>\<open>requests.Response\<close>: its status code (an integer, or \<^verbatim>\<open>None\<close> as
  \<^verbatim>\<open>requests.Response()\<close> leaves it until a reply fills it in), its body text and what
  \<^verbatim>\<open>response.json()\<close> gives (a value, or the exception of the parser).
\<close>

record response =
  status_code :: "int option"
  resp_text :: string
  resp_json :: "py_error + pyval"

text \<open>
  An object handed to \<^verbatim>\<open>is_success\<close>: a \<^verbatim>\<open>Response\<close>, or an object of another class,
  given by the value of its \<^verbatim>\<open>status_code\<close> attribute when it has one.
\<close>

datatype pyobj = ResponseObj response | NonResponse "pyval option"

datatype level = Debug | Info | Warning

datatype logarg = AVal pyval | AErr raised

text \<open>
  What a method does to the outside: a call of the logger (level, message, arguments) or a
  request handed to the HTTP library.
\<close>

datatype event = Logged level logarg "logarg list" | Sent request

fun sent_requests :: "event list \<Rightarrow> request list" where
  "sent_requests [] = []"
| "sent_requests (Logged l m as # es) = sent_requests es"
| "sent_requests (Sent r # es) = r # sent_requests es"

fun warnings :: "event list \<Rightarrow> (logarg \<times> logarg list) list" where
  "warnings [] = []"
| "warnings (Logged l m as # es) =
     (if l = Warning then (m, as) # warnings es else warnings es)"
| "warnings (Sent r # es) = warnings es"

text \<open>Whether a headers argument is a dictionary that maps the name to the value.\<close>

fun has_header :: "string \<Rightarrow> string \<Rightarrow> pyval \<Rightarrow> bool" where
  "has_header k v (PDict kvs) = (map_of kvs k = Some (PStr v))"
| "has_header k v other = False"

subsection \<open>The Transport class\<close>

definition REQUEST_TIMEOUT :: int where
  "REQUEST_TIMEOUT = 30"

definition NOT_FOUND :: int where
  "NOT_FOUND = 404"

text \<open>The class attribute \<^verbatim>\<open>__request_timeout\<close>, which no method reads.\<close>

definition Transport_request_timeout :: int where
  "Transport_request_timeout = 10"

text \<open>
  The fields \<^verbatim>\<open>__token\<close> and \<^verbatim>\<open>__host\<close> of an instance; both are \<^verbatim>\<open>None\<close> until
  set. Instances live in a store, so that a method that returns \<^verbatim>\<open>self\<close> returns the
  reference it was called on.
\<close>

record transport =
  priv_token :: "string option"
  priv_host :: "string option"

type_synonym ref = nat

type_synonym heap = "ref \<Rightarrow> transport"

text \<open>\<^verbatim>\<open>resolve_host\<close> of \<^verbatim>\<open>opentmi_client.utils\<close> is a parameter.\<close>

definition set_host :: "(string \<Rightarrow> int \<Rightarrow> string) \<Rightarrow> ref \<Rightarrow> string \<Rightarrow> int \<Rightarrow> heap \<Rightarrow> heap" where
  "set_host resolve_host self hostname port hp =
     hp(self := (hp self)\<lparr>priv_host := Some (resolve_host hostname port)\<rparr>)"

definition host :: "transport \<Rightarrow> string option" where
  "host self = priv_host self"

definition set_token :: "ref \<Rightarrow> string option \<Rightarrow> heap \<Rightarrow> ref \<times> heap" where
  "set_token self tok hp = (self, hp(self := (hp self)\<lparr>priv_token := tok\<rparr>))"

definition init :: "(string \<Rightarrow> int \<Rightarrow> string) \<Rightarrow> ref \<Rightarrow> string \<Rightarrow> int \<Rightarrow> heap \<Rightarrow> heap \<times> event list" where
  "init resolve_host self hostname port hp =
     (let hp = hp(self := \<lparr>priv_token = None, priv_host = None\<rparr>);
          hp = set_host resolve_host self hostname port hp
      in (hp, [Logged Info (AVal (PStr ''OpenTMI host: %s'')) [AVal (py_of_opt (host (hp self)))]]))"

text \<open>
  The property \<^verbatim>\<open>__headers\<close>. Its body builds the dictionary \<^verbatim>\<open>headers\<close> and ends
  without a \<^verbatim>\<open>return\<close>, so its value is \<^verbatim>\<open>None\<close>. \<open>headers_built\<close> is the local
  dictionary at the end of the body.
\<close>

definition headers_built :: "transport \<Rightarrow> (string \<times> pyval) list" where
  "headers_built self =
     (let headers = [(''content-type'', PStr ''application/json''), (''Connection'', PStr ''close'')]
      in if truthy (py_of_opt (priv_token self))
         then headers @ [(''Authorization'', PStr (''Bearer '' @ the (priv_token self)))]
         else headers)"

definition headers :: "transport \<Rightarrow> pyval" where
  "headers self = (let headers = headers_built self in PNone)"

text \<open>
  The text of the \<^verbatim>\<open>TypeError\<close> that Python 3 raises for \<^verbatim>\<open>300 > None\<close>:
  \<^verbatim>\<open>'>' not supported between instances of 'int' and 'NoneType'\<close>.
\<close>

definition none_comparison_message :: string where
  "none_comparison_message =
     [CHR 0x27] @ ''>'' @ [CHR 0x27] @ '' not supported between instances of '' @
     [CHR 0x27] @ ''int'' @ [CHR 0x27] @ '' and '' @ [CHR 0x27] @ ''NoneType'' @ [CHR 0x27]"

text \<open>
  \<^verbatim>\<open>is_success\<close>: the assertion first, then the chained comparison
  \<^verbatim>\<open>300 > code >= 200\<close>, whose first half raises when the code is \<^verbatim>\<open>None\<close>.
\<close>

fun is_success :: "pyobj \<Rightarrow> py_error + bool" where
  "is_success (ResponseObj response) =
     (case status_code response of
        None \<Rightarrow> Inl (TypeError none_comparison_message)
      | Some code \<Rightarrow> Inr (300 > code \<and> code \<ge> 200))"
| "is_success (NonResponse a) = Inl (AssertionError [])"

subsection \<open>GET\<close>

text \<open>
  The body of the \<^verbatim>\<open>try\<close> block: it returns a value (\<open>Inr (Some v)\<close>), falls through to
  the end of the block (\<open>Inr None\<close>) or raises (\<open>Inl\<close>).
\<close>

definition get_json_try ::
  "(request \<Rightarrow> py_error + response) \<Rightarrow> transport \<Rightarrow> string \<Rightarrow> pyval \<Rightarrow>
   (raised + pyval option) \<times> event list" where
  "get_json_try http self url params =
     (let req = Get url (headers self) REQUEST_TIMEOUT params;
          ev = [Logged Debug (AVal (PStr ''GET: %s'')) [AVal (PStr url)], Sent req]
      in case http req of
           Inl error \<Rightarrow> (Inl (PyError error), ev)
         | Inr response \<Rightarrow>
             (case is_success (ResponseObj response) of
                Inl error \<Rightarrow> (Inl (PyError error), ev)
              | Inr True \<Rightarrow>
                  (case resp_json response of
                     Inl error \<Rightarrow> (Inl (PyError error), ev)
                   | Inr v \<Rightarrow> (Inr (Some v), ev))
              | Inr False \<Rightarrow>
                  if status_code response = Some NOT_FOUND
                  then (Inr None, ev @ [Logged Warning (AVal (PStr ''not found'')) []])
                  else (Inl (TransportException (Text (resp_text response))
                               (status_code response)),
                        ev @ [Logged Warning (AVal (PStr ''Request failed: %s (code: %s)''))
                                [AVal (PStr (resp_text response)),
                                 AVal (PStr (str_status (status_code response)))]])))"

text \<open>The \<^verbatim>\<open>except\<close> clauses in their order: what is raised instead, and what is logged.\<close>

fun get_json_except :: "raised \<Rightarrow> raised \<times> event list" where
  "get_json_except (PyError (RequestException m)) =
     (TransportException (Text m) None,
      [Logged Warning (AVal (PStr ''Connection error %s'')) [AErr (PyError (RequestException m))]])"
| "get_json_except (PyError (ValueError m)) = (TransportException (Text m) None, [])"
| "get_json_except (PyError (TypeError m)) = (TransportException (Text m) None, [])"
| "get_json_except error = (error, [])"

definition get_json ::
  "(request \<Rightarrow> py_error + response) \<Rightarrow> transport \<Rightarrow> string \<Rightarrow> pyval \<Rightarrow>
   (raised + pyval) \<times> event list" where
  "get_json http self url params =
     (case get_json_try http self url params of
        (Inl error, ev) \<Rightarrow>
          (case get_json_except error of (error', ev') \<Rightarrow> (Inl error', ev @ ev'))
      | (Inr (Some v), ev) \<Rightarrow> (Inr v, ev)
      | (Inr None, ev) \<Rightarrow> (Inr PNone, ev))"

subsection \<open>POST\<close>

text \<open>\<^verbatim>\<open>json.loads\<close> is a parameter: a value, or the exception of the parser.\<close>

definition post_json_try ::
  "(request \<Rightarrow> py_error + response) \<Rightarrow> (string \<Rightarrow> py_error + pyval) \<Rightarrow> transport \<Rightarrow>
   string \<Rightarrow> pyval \<Rightarrow> pyval \<Rightarrow> (raised + pyval) \<times> event list" where
  "post_json_try http json_loads self url payload files =
     (let req = Post url payload (headers self)
                  (if py_not PNone then files else PList []) REQUEST_TIMEOUT;
          ev = [Sent req]
      in case http req of
           Inl error \<Rightarrow> (Inl (PyError error), ev)
         | Inr response \<Rightarrow>
             (case is_success (ResponseObj response) of
                Inl error \<Rightarrow> (Inl (PyError error), ev)
              | Inr True \<Rightarrow>
                  (case json_loads (resp_text response) of
                     Inl error \<Rightarrow> (Inl (PyError error), ev)
                   | Inr data \<Rightarrow> (Inr data, ev))
              | Inr False \<Rightarrow>
                  (Inl (TransportException (Text (resp_text response))
                          (status_code response)),
                   ev @ [Logged Warning (AVal (PStr ''status_code: %s''))
                           [AVal (PStr (str_status (status_code response)))],
                         Logged Warning (AVal (PStr (resp_text response))) []])))"

fun post_json_except :: "raised \<Rightarrow> raised \<times> event list" where
  "post_json_except (PyError (RequestException m)) =
     (TransportException (Text m) None,
      [Logged Warning (AErr (PyError (RequestException m))) []])"
| "post_json_except (PyError (ValueError m)) =
     (TransportException (ErrorObject (ValueError m)) None, [])"
| "post_json_except (PyError (TypeError m)) =
     (TransportException (ErrorObject (TypeError m)) None, [])"
| "post_json_except (PyError (KeyError m)) =
     (TransportException (ErrorObject (KeyError m)) None, [])"
| "post_json_except error = (error, [])"

definition post_json ::
  "(request \<Rightarrow> py_error + response) \<Rightarrow> (string \<Rightarrow> py_error + pyval) \<Rightarrow> transport \<Rightarrow>
   string \<Rightarrow> pyval \<Rightarrow> pyval \<Rightarrow> (raised + pyval) \<times> event list" where
  "post_json http json_loads self url payload files =
     (case post_json_try http json_loads self url payload files of
        (Inl error, ev) \<Rightarrow>
          (case post_json_except error of (error', ev') \<Rightarrow> (Inl error', ev @ ev'))
      | (Inr data, ev) \<Rightarrow> (Inr data, ev))"

subsection \<open>PUT\<close>

definition put_json_try ::
  "(request \<Rightarrow> py_error + response) \<Rightarrow> (string \<Rightarrow> py_error + pyval) \<Rightarrow> transport \<Rightarrow>
   string \<Rightarrow> pyval \<Rightarrow> (raised + pyval) \<times> event list" where
  "put_json_try http json_loads self url payload =
     (let req = Put url payload (headers self) REQUEST_TIMEOUT;
          ev = [Sent req]
      in case http req of
           Inl error \<Rightarrow> (Inl (PyError error), ev)
         | Inr response \<Rightarrow>
             (case is_success (ResponseObj response) of
                Inl error \<Rightarrow> (Inl (PyError error), ev)
              | Inr True \<Rightarrow>
                  (case json_loads (resp_text response) of
                     Inl error \<Rightarrow> (Inl (PyError error), ev)
                   | Inr data \<Rightarrow> (Inr data, ev))
              | Inr False \<Rightarrow>
                  (Inl (TransportException (Text (resp_text response))
                          (status_code response)),
                   ev @ [Logged Warning (AVal (PStr ''status_code: %s''))
                           [AVal (PStr (str_status (status_code response)))],
                         Logged Warning (AVal (PStr (resp_text response))) []])))"

text \<open>
  \<^verbatim>\<open>str(error)\<close> in the last handler. That handler catches every \<^verbatim>\<open>Exception\<close>, a
  \<^verbatim>\<open>TransportException\<close> raised in the \<^verbatim>\<open>try\<close> block too; what \<^verbatim>\<open>str\<close> gives
  for one is decided by the class, so it is the parameter \<open>te_str\<close>.
\<close>

fun str_raised :: "(te_message \<Rightarrow> int option \<Rightarrow> string) \<Rightarrow> raised \<Rightarrow> string" where
  "str_raised te_str (PyError e) = str_error e"
| "str_raised te_str (TransportException m c) = te_str m c"

fun put_json_except :: "(te_message \<Rightarrow> int option \<Rightarrow> string) \<Rightarrow> raised \<Rightarrow> raised \<times> event list" where
  "put_json_except te_str (PyError (RequestException m)) =
     (TransportException (Text m) None,
      [Logged Warning (AErr (PyError (RequestException m))) []])"
| "put_json_except te_str (PyError (ValueError m)) =
     (TransportException (ErrorObject (ValueError m)) None, [])"
| "put_json_except te_str (PyError (TypeError m)) =
     (TransportException (ErrorObject (TypeError m)) None, [])"
| "put_json_except te_str error =
     (TransportException (Text (str_raised te_str error)) None,
      [Logged Warning (AErr error) []])"

definition put_json ::
  "(request \<Rightarrow> py_error + response) \<Rightarrow> (string \<Rightarrow> py_error + pyval) \<Rightarrow>
   (te_message \<Rightarrow> int option \<Rightarrow> string) \<Rightarrow> transport \<Rightarrow>
   string \<Rightarrow> pyval \<Rightarrow> (raised + pyval) \<times> event list" where
  "put_json http json_loads te_str self url payload =
     (case put_json_try http json_loads self url payload of
        (Inl error, ev) \<Rightarrow>
          (case put_json_except te_str error of (error', ev') \<Rightarrow> (Inl error', ev @ ev'))
      | (Inr data, ev) \<Rightarrow> (Inr data, ev))"

section \<open>Properties\<close>

subsection \<open>What each verb does with the answer of the HTTP library\<close>

lemma headers_value: "headers self = PNone"
  by (simp add: headers_def)

lemma headers_built_token:
  "headers_built \<lparr>priv_token = Some ''abc'', priv_host = h\<rparr> =
     [(''content-type'', PStr ''application/json''), (''Connection'', PStr ''close''),
      (''Authorization'', PStr ''Bearer abc'')]"
  by (simp add: headers_built_def)

lemma headers_built_authorization:
  "map_of (headers_built self) ''Authorization'' =
     (if truthy (py_of_opt (priv_token self))
      then Some (PStr (''Bearer '' @ the (priv_token self))) else None)"
  by (simp add: headers_built_def)

lemma init_fields:
  "priv_token (fst (init resolve_host self hostname port hp) self) = None"
  "host (fst (init resolve_host self hostname port hp) self) = Some (resolve_host hostname port)"
  by (simp_all add: init_def set_host_def host_def)

lemma is_success_response:
  "status_code r = Some c \<Longrightarrow> is_success (ResponseObj r) = Inr (200 \<le> c \<and> c < 300)"
  by auto

lemma is_success_none:
  "status_code r = None \<Longrightarrow> is_success (ResponseObj r) = Inl (TypeError none_comparison_message)"
  by simp

lemma get_json_client_error:
  assumes "http (Get url (headers self) REQUEST_TIMEOUT params) = Inl e"
  shows "get_json http self url params =
           (case get_json_except (PyError e) of (e', ev') \<Rightarrow>
              (Inl e', [Logged Debug (AVal (PStr ''GET: %s'')) [AVal (PStr url)],
                        Sent (Get url (headers self) REQUEST_TIMEOUT params)] @ ev'))"
  using assms by (simp add: get_json_def get_json_try_def Let_def)

lemma get_json_success:
  assumes "http (Get url (headers self) REQUEST_TIMEOUT params) = Inr r"
    and "status_code r = Some c" and "200 \<le> c" and "c < 300"
  shows "get_json http self url params =
           (case resp_json r of
              Inl e \<Rightarrow>
                (case get_json_except (PyError e) of (e', ev') \<Rightarrow>
                   (Inl e', [Logged Debug (AVal (PStr ''GET: %s'')) [AVal (PStr url)],
                             Sent (Get url (headers self) REQUEST_TIMEOUT params)] @ ev'))
            | Inr v \<Rightarrow>
                (Inr v, [Logged Debug (AVal (PStr ''GET: %s'')) [AVal (PStr url)],
                         Sent (Get url (headers self) REQUEST_TIMEOUT params)]))"
  using assms by (simp add: get_json_def get_json_try_def Let_def split: sum.splits)

lemma get_json_not_found_result:
  assumes "http (Get url (headers self) REQUEST_TIMEOUT params) = Inr r"
    and "status_code r = Some 404"
  shows "get_json http self url params =
           (Inr PNone, [Logged Debug (AVal (PStr ''GET: %s'')) [AVal (PStr url)],
                        Sent (Get url (headers self) REQUEST_TIMEOUT params),
                        Logged Warning (AVal (PStr ''not found'')) []])"
  using assms by (simp add: get_json_def get_json_try_def Let_def NOT_FOUND_def)

lemma get_json_failure:
  assumes "http (Get url (headers self) REQUEST_TIMEOUT params) = Inr r"
    and "status_code r = Some c" and "\<not> (200 \<le> c \<and> c < 300)" and "c \<noteq> 404"
  shows "fst (get_json http self url params) =
           Inl (TransportException (Text (resp_text r)) (Some c))"
  using assms by (auto simp add: get_json_def get_json_try_def Let_def NOT_FOUND_def)

text \<open>
  A response without a status code: the \<^verbatim>\<open>TypeError\<close> of \<^verbatim>\<open>is_success\<close> is raised
  inside the \<^verbatim>\<open>try\<close> block and caught by the handler for \<^verbatim>\<open>ValueError\<close> and
  \<^verbatim>\<open>TypeError\<close>.
\<close>

lemma get_json_status_none:
  assumes "http (Get url (headers self) REQUEST_TIMEOUT params) = Inr r"
    and "status_code r = None"
  shows "fst (get_json http self url params) =
           Inl (TransportException (Text none_comparison_message) None)"
  using assms by (simp add: get_json_def get_json_try_def Let_def)

lemma get_json_sent:
  "sent_requests (snd (get_json http self url params)) =
     [Get url (headers self) REQUEST_TIMEOUT params]"
  by (cases "http (Get url (headers self) REQUEST_TIMEOUT params)")
     (auto simp add: get_json_def get_json_try_def Let_def
           split: sum.splits prod.splits option.splits bool.splits
           elim!: get_json_except.elims)

lemma post_json_client_error:
  assumes "http (Post url payload (headers self) files REQUEST_TIMEOUT) = Inl e"
  shows "post_json http json_loads self url payload files =
           (case post_json_except (PyError e) of (e', ev') \<Rightarrow>
              (Inl e', [Sent (Post url payload (headers self) files REQUEST_TIMEOUT)] @ ev'))"
  using assms by (simp add: post_json_def post_json_try_def Let_def py_not_def)

lemma post_json_failure:
  assumes "http (Post url payload (headers self) files REQUEST_TIMEOUT) = Inr r"
    and "status_code r = Some c" and "\<not> (200 \<le> c \<and> c < 300)"
  shows "fst (post_json http json_loads self url payload files) =
           Inl (TransportException (Text (resp_text r)) (Some c))"
  using assms by (auto simp add: post_json_def post_json_try_def Let_def py_not_def)

lemma post_json_sent:
  "sent_requests (snd (post_json http json_loads self url payload files)) =
     [Post url payload (headers self) files REQUEST_TIMEOUT]"
  by (cases "http (Post url payload (headers self) files REQUEST_TIMEOUT)")
     (auto simp add: post_json_def post_json_try_def Let_def py_not_def
           split: sum.splits prod.splits bool.splits elim!: post_json_except.elims)

lemma put_json_client_error:
  assumes "http (Put url payload (headers self) REQUEST_TIMEOUT) = Inl e"
  shows "put_json http json_loads te_str self url payload =
           (case put_json_except te_str (PyError e) of (e', ev') \<Rightarrow>
              (Inl e', [Sent (Put url payload (headers self) REQUEST_TIMEOUT)] @ ev'))"
  using assms by (simp add: put_json_def put_json_try_def Let_def)

text \<open>
  The \<^verbatim>\<open>TransportException\<close> that the \<^verbatim>\<open>try\<close> block of \<^verbatim>\<open>put_json\<close> raises for a
  response outside [200, 300) is caught by \<^verbatim>\<open>except Exception\<close> and raised anew from its
  text alone.
\<close>

lemma put_json_failure:
  assumes "http (Put url payload (headers self) REQUEST_TIMEOUT) = Inr r"
    and "status_code r = Some c" and "\<not> (200 \<le> c \<and> c < 300)"
  shows "fst (put_json http json_loads te_str self url payload) =
           Inl (TransportException (Text (te_str (Text (resp_text r)) (Some c))) None)"
  using assms by (auto simp add: put_json_def put_json_try_def Let_def)

lemma put_json_sent:
  "sent_requests (snd (put_json http json_loads te_str self url payload)) =
     [Put url payload (headers self) REQUEST_TIMEOUT]"
  by (cases "http (Put url payload (headers self) REQUEST_TIMEOUT)")
     (auto simp add: put_json_def put_json_try_def Let_def
           split: sum.splits prod.splits bool.splits elim!: put_json_except.elims)

subsection \<open>Request headers\<close>

text \<open>
  Claim C1. Every request of \<^verbatim>\<open>get_json\<close>, \<^verbatim>\<open>post_json\<close> and \<^verbatim>\<open>put_json\<close> is to
  carry the headers \<^verbatim>\<open>content-type: application/json\<close> and \<^verbatim>\<open>Connection: close\<close>, and
  \<^verbatim>\<open>Authorization: Bearer <token>\<close> exactly when a token has been set. The code does not
  do so: after \<^verbatim>\<open>set_token("abc")\<close> the headers argument of each of the three requests
  is \<^verbatim>\<open>None\<close>, which holds none of the three headers, because the property that builds
  the dictionary (\<open>headers_built_token\<close>) never returns it.
\<close>

theorem headers_argument_is_none:
  "map req_headers (sent_requests (snd
      (get_json http (snd (set_token self (Some ''abc'') hp) self) url params))) = [PNone]
   \<and> map req_headers (sent_requests (snd
      (post_json http json_loads (snd (set_token self (Some ''abc'') hp) self) url payload files))) = [PNone]
   \<and> map req_headers (sent_requests (snd
      (put_json http json_loads te_str (snd (set_token self (Some ''abc'') hp) self) url payload))) = [PNone]
   \<and> \<not> has_header ''content-type'' ''application/json'' PNone
   \<and> \<not> has_header ''Connection'' ''close'' PNone
   \<and> \<not> has_header ''Authorization'' ''Bearer abc'' PNone"
  by (simp add: get_json_sent post_json_sent put_json_sent headers_value)

subsection \<open>Responses outside the success range\<close>

text \<open>
  Claim C2. A response whose status is not in [200, 300) (and not 404, for
  \<^verbatim>\<open>get_json\<close>) is to raise a \<^verbatim>\<open>TransportException\<close> with the body text and the status
  code, on all three verbs. \<^verbatim>\<open>get_json\<close> and \<^verbatim>\<open>post_json\<close> do (\<open>get_json_failure\<close>,
  \<open>post_json_failure\<close>); \<^verbatim>\<open>put_json\<close> does not: for a 500 response with body
  \<^verbatim>\<open>server error\<close> the exception that leaves it has no status code, and its message is
  what \<^verbatim>\<open>str\<close> makes of the exception first raised.
\<close>

theorem put_json_drops_status_code:
  "fst (put_json
          (\<lambda>req. Inr \<lparr>status_code = Some 500, resp_text = ''server error'', resp_json = j\<rparr>)
          json_loads te_str self url payload) =
     Inl (TransportException (Text (te_str (Text ''server error'') (Some 500))) None)"
  by (simp add: put_json_failure)

subsection \<open>File attachments\<close>

text \<open>
  Claim C3. \<^verbatim>\<open>post_json\<close> called with \<^verbatim>\<open>files=None\<close> is to hand an empty list to the
  HTTP library. The code hands on \<^verbatim>\<open>None\<close>: the condition of
  \<^verbatim>\<open>files if not None else []\<close> is the constant \<^verbatim>\<open>not None\<close>, which is true.
\<close>

theorem post_json_files_none_passed_on:
  "map req_files (sent_requests (snd (post_json http json_loads self url payload PNone))) =
     [Some PNone]
   \<and> PNone \<noteq> PList []"
  by (simp add: post_json_sent)

subsection \<open>Not found\<close>

text \<open>
  Claim C4. For every response with status code 404, \<^verbatim>\<open>get_json\<close> logs a warning and
  returns \<^verbatim>\<open>None\<close>; it raises nothing.
\<close>

theorem get_json_not_found_returns_none:
  assumes "http (Get url (headers self) REQUEST_TIMEOUT params) = Inr response"
    and "status_code response = Some 404"
  shows "fst (get_json http self url params) = Inr PNone
         \<and> warnings (snd (get_json http self url params)) = [(AVal (PStr ''not found''), [])]"
  using assms by (simp add: get_json_not_found_result)

theorem get_json_not_found_returns_none_witness:
  "(\<lambda>req. Inr \<lparr>status_code = Some 404, resp_text = ''no such resource'',
                resp_json = Inl (ValueError ''Expecting value'')\<rparr>)
       (Get ''http://localhost:3000/api/v0/builds/1''
          (headers \<lparr>priv_token = None, priv_host = Some ''http://localhost:3000''\<rparr>)
          REQUEST_TIMEOUT PNone)
     = Inr \<lparr>status_code = Some 404, resp_text = ''no such resource'',
            resp_json = Inl (ValueError ''Expecting value'')\<rparr>
   \<and> status_code \<lparr>status_code = Some 404, resp_text = ''no such resource'',
                  resp_json = Inl (ValueError ''Expecting value'')\<rparr> = Some 404
   \<and> fst (get_json
            (\<lambda>req. Inr \<lparr>status_code = Some 404, resp_text = ''no such resource'',
                          resp_json = Inl (ValueError ''Expecting value'')\<rparr>)
            \<lparr>priv_token = None, priv_host = Some ''http://localhost:3000''\<rparr>
            ''http://localhost:3000/api/v0/builds/1'' PNone) = Inr PNone
   \<and> warnings (snd (get_json
            (\<lambda>req. Inr \<lparr>status_code = Some 404, resp_text = ''no such resource'',
                          resp_json = Inl (ValueError ''Expecting value'')\<rparr>)
            \<lparr>priv_token = None, priv_host = Some ''http://localhost:3000''\<rparr>
            ''http://localhost:3000/api/v0/builds/1'' PNone))
       = [(AVal (PStr ''not found''), [])]"
  using get_json_not_found_returns_none
      [of "\<lambda>req. Inr \<lparr>status_code = Some 404, resp_text = ''no such resource'',
                        resp_json = Inl (ValueError ''Expecting value'')\<rparr>"
          "''http://localhost:3000/api/v0/builds/1''"
          "\<lparr>priv_token = None, priv_host = Some ''http://localhost:3000''\<rparr>" PNone
          "\<lparr>status_code = Some 404, resp_text = ''no such resource'',
            resp_json = Inl (ValueError ''Expecting value'')\<rparr>"]
  by simp

subsection \<open>Connection failures\<close>

text \<open>
  Claim C5. When the HTTP library raises a \<^verbatim>\<open>RequestException\<close> (a network error or a
  timeout), each of \<^verbatim>\<open>get_json\<close>, \<^verbatim>\<open>post_json\<close> and \<^verbatim>\<open>put_json\<close> raises a
  \<^verbatim>\<open>TransportException\<close> whose message is the text of that error and which has no status
  code.
\<close>

theorem connection_failure_raises_transport_exception:
  "(http (Get url (headers self) REQUEST_TIMEOUT params) = Inl (RequestException m) \<longrightarrow>
      fst (get_json http self url params) = Inl (TransportException (Text m) None))
   \<and> (http (Post url payload (headers self) files REQUEST_TIMEOUT) = Inl (RequestException m) \<longrightarrow>
      fst (post_json http json_loads self url payload files) =
        Inl (TransportException (Text m) None))
   \<and> (http (Put url payload (headers self) REQUEST_TIMEOUT) = Inl (RequestException m) \<longrightarrow>
      fst (put_json http json_loads te_str self url payload) =
        Inl (TransportException (Text m) None))"
  by (simp add: get_json_client_error post_json_client_error put_json_client_error)

theorem connection_failure_raises_transport_exception_witness:
  "(\<lambda>req. Inl (RequestException ''Connection refused''))
       (Get ''u'' (headers \<lparr>priv_token = Some ''abc'', priv_host = None\<rparr>) REQUEST_TIMEOUT PNone)
     = Inl (RequestException ''Connection refused'')
   \<and> fst (get_json (\<lambda>req. Inl (RequestException ''Connection refused''))
            \<lparr>priv_token = Some ''abc'', priv_host = None\<rparr> ''u'' PNone)
       = Inl (TransportException (Text ''Connection refused'') None)
   \<and> (\<lambda>req. Inl (RequestException ''Connection refused''))
       (Post ''u'' (PDict []) (headers \<lparr>priv_token = Some ''abc'', priv_host = None\<rparr>)
          (PList []) REQUEST_TIMEOUT)
     = Inl (RequestException ''Connection refused'')
   \<and> fst (post_json (\<lambda>req. Inl (RequestException ''Connection refused'')) (\<lambda>s. Inr PNone)
            \<lparr>priv_token = Some ''abc'', priv_host = None\<rparr> ''u'' (PDict []) (PList []))
       = Inl (TransportException (Text ''Connection refused'') None)
   \<and> (\<lambda>req. Inl (RequestException ''Connection refused''))
       (Put ''u'' (PDict []) (headers \<lparr>priv_token = Some ''abc'', priv_host = None\<rparr>)
          REQUEST_TIMEOUT)
     = Inl (RequestException ''Connection refused'')
   \<and> fst (put_json (\<lambda>req. Inl (RequestException ''Connection refused'')) (\<lambda>s. Inr PNone)
            (\<lambda>msg code. []) \<lparr>priv_token = Some ''abc'', priv_host = None\<rparr> ''u'' (PDict []))
       = Inl (TransportException (Text ''Connection refused'') None)"
  using connection_failure_raises_transport_exception
      [of "\<lambda>req. Inl (RequestException ''Connection refused'')" "''u''"
          "\<lparr>priv_token = Some ''abc'', priv_host = None\<rparr>" PNone "''Connection refused''"
          "PDict []" "PList []" "\<lambda>s. Inr PNone" "\<lambda>msg code. []"]
  by simp

subsection \<open>The success predicate\<close>

text \<open>
  Claim C6. \<^verbatim>\<open>is_success\<close> is a pure predicate on a response: it is true exactly when
  the status code is in [200, 300), and for every integer code its value is that test. It is
  true for the codes 200, 204 and 299 and false for 199, 300, 404 and 500.
\<close>

theorem is_success_iff_2xx:
  "(is_success (ResponseObj response) = Inr True) =
     (\<exists>c. status_code response = Some c \<and> 200 \<le> c \<and> c < 300)
   \<and> is_success (ResponseObj (response\<lparr>status_code := Some c\<rparr>)) =
       Inr (200 \<le> c \<and> c < 300)
   \<and> is_success (ResponseObj \<lparr>status_code = Some 200, resp_text = t, resp_json = j\<rparr>) = Inr True
   \<and> is_success (ResponseObj \<lparr>status_code = Some 204, resp_text = t, resp_json = j\<rparr>) = Inr True
   \<and> is_success (ResponseObj \<lparr>status_code = Some 299, resp_text = t, resp_json = j\<rparr>) = Inr True
   \<and> is_success (ResponseObj \<lparr>status_code = Some 199, resp_text = t, resp_json = j\<rparr>) = Inr False
   \<and> is_success (ResponseObj \<lparr>status_code = Some 300, resp_text = t, resp_json = j\<rparr>) = Inr False
   \<and> is_success (ResponseObj \<lparr>status_code = Some 404, resp_text = t, resp_json = j\<rparr>) = Inr False
   \<and> is_success (ResponseObj \<lparr>status_code = Some 500, resp_text = t, resp_json = j\<rparr>) = Inr False"
  by (cases "status_code response") auto




subsection \<open>Success\<close>

text \<open>
  Claim C7. For every response with a status code in [200, 300), \<^verbatim>\<open>get_json\<close> returns
  the parsed JSON body, the value that \<^verbatim>\<open>response.json()\<close> gives. The witness is the
  response 200 with body \<^verbatim>\<open>{"a":1}\<close>, for which the dictionary with \<^verbatim>\<open>a\<close> at 1 is
  returned.
\<close>

theorem get_json_success_returns_parsed_body:
  assumes "http (Get url (headers self) REQUEST_TIMEOUT params) = Inr response"
    and "status_code response = Some c" and "200 \<le> c" and "c < 300"
    and "resp_json response = Inr v"
  shows "fst (get_json http self url params) = Inr v"
  using assms by (simp add: get_json_success)

theorem get_json_success_returns_parsed_body_witness:
  "(\<lambda>req. Inr \<lparr>status_code = Some 200, resp_text = ''{\"a\":1}'',
                resp_json = Inr (PDict [(''a'', PInt 1)])\<rparr>)
       (Get ''http://localhost:3000/api/v0/builds/1''
          (headers \<lparr>priv_token = None, priv_host = None\<rparr>) REQUEST_TIMEOUT PNone)
     = Inr \<lparr>status_code = Some 200, resp_text = ''{\"a\":1}'',
            resp_json = Inr (PDict [(''a'', PInt 1)])\<rparr>
   \<and> status_code \<lparr>status_code = Some 200, resp_text = ''{\"a\":1}'',
                  resp_json = Inr (PDict [(''a'', PInt 1)])\<rparr> = Some 200
   \<and> (200::int) \<le> 200 \<and> (200::int) < 300
   \<and> resp_json \<lparr>status_code = Some 200, resp_text = ''{\"a\":1}'',
                resp_json = Inr (PDict [(''a'', PInt 1)])\<rparr> = Inr (PDict [(''a'', PInt 1)])
   \<and> fst (get_json
            (\<lambda>req. Inr \<lparr>status_code = Some 200, resp_text = ''{\"a\":1}'',
                          resp_json = Inr (PDict [(''a'', PInt 1)])\<rparr>)
            \<lparr>priv_token = None, priv_host = None\<rparr>
            ''http://localhost:3000/api/v0/builds/1'' PNone)
       = Inr (PDict [(''a'', PInt 1)])"
  using get_json_success_returns_parsed_body
      [of "\<lambda>req. Inr \<lparr>status_code = Some 200, resp_text = ''{\"a\":1}'',
                        resp_json = Inr (PDict [(''a'', PInt 1)])\<rparr>"
          "''http://localhost:3000/api/v0/builds/1''"
          "\<lparr>priv_token = None, priv_host = None\<rparr>" PNone
          "\<lparr>status_code = Some 200, resp_text = ''{\"a\":1}'',
            resp_json = Inr (PDict [(''a'', PInt 1)])\<rparr>"
          200 "PDict [(''a'', PInt 1)]"]
  by simp

subsection \<open>The timeout\<close>

text \<open>
  Claim C8. Every request of \<^verbatim>\<open>get_json\<close>, \<^verbatim>\<open>post_json\<close> and \<^verbatim>\<open>put_json\<close> is sent
  with the fixed timeout 30, and the failure that the HTTP library raises for that request
  (a \<^verbatim>\<open>RequestException\<close>, as a timeout is) becomes a \<^verbatim>\<open>TransportException\<close>.
\<close>

theorem requests_use_fixed_timeout:
  "map req_timeout (sent_requests (snd (get_json http self url params))) = [30]
   \<and> map req_timeout (sent_requests (snd (post_json http json_loads self url payload files))) = [30]
   \<and> map req_timeout (sent_requests (snd (put_json http json_loads te_str self url payload))) = [30]
   \<and> (http (Get url (headers self) 30 params) = Inl (RequestException m) \<longrightarrow>
        fst (get_json http self url params) = Inl (TransportException (Text m) None))
   \<and> (http (Post url payload (headers self) files 30) = Inl (RequestException m) \<longrightarrow>
        fst (post_json http json_loads self url payload files) =
          Inl (TransportException (Text m) None))
   \<and> (http (Put url payload (headers self) 30) = Inl (RequestException m) \<longrightarrow>
        fst (put_json http json_loads te_str self url payload) =
          Inl (TransportException (Text m) None))"
proof -
  have t: "REQUEST_TIMEOUT = 30"
    by (simp add: REQUEST_TIMEOUT_def)
  show ?thesis
    using get_json_client_error [of http url self params "RequestException m"]
      post_json_client_error [of http url payload self files "RequestException m" json_loads]
      put_json_client_error [of http url payload self "RequestException m" json_loads te_str]
    by (simp add: get_json_sent post_json_sent put_json_sent t)
qed

theorem requests_use_fixed_timeout_witness:
  "map req_timeout (sent_requests (snd
      (get_json (\<lambda>req. Inl (RequestException ''Read timed out.''))
         \<lparr>priv_token = None, priv_host = None\<rparr> ''u'' PNone))) = [30]
   \<and> map req_timeout (sent_requests (snd
      (post_json (\<lambda>req. Inl (RequestException ''Read timed out.'')) (\<lambda>s. Inr PNone)
         \<lparr>priv_token = None, priv_host = None\<rparr> ''u'' (PDict []) PNone))) = [30]
   \<and> map req_timeout (sent_requests (snd
      (put_json (\<lambda>req. Inl (RequestException ''Read timed out.'')) (\<lambda>s. Inr PNone)
         (\<lambda>msg code. []) \<lparr>priv_token = None, priv_host = None\<rparr> ''u'' (PDict [])))) = [30]
   \<and> (\<lambda>req. Inl (RequestException ''Read timed out.''))
        (Get ''u'' (headers \<lparr>priv_token = None, priv_host = None\<rparr>) 30 PNone)
      = Inl (RequestException ''Read timed out.'')
   \<and> fst (get_json (\<lambda>req. Inl (RequestException ''Read timed out.''))
            \<lparr>priv_token = None, priv_host = None\<rparr> ''u'' PNone)
      = Inl (TransportException (Text ''Read timed out.'') None)
   \<and> (\<lambda>req. Inl (RequestException ''Read timed out.''))
        (Post ''u'' (PDict []) (headers \<lparr>priv_token = None, priv_host = None\<rparr>) PNone 30)
      = Inl (RequestException ''Read timed out.'')
   \<and> fst (post_json (\<lambda>req. Inl (RequestException ''Read timed out.'')) (\<lambda>s. Inr PNone)
            \<lparr>priv_token = None, priv_host = None\<rparr> ''u'' (PDict []) PNone)
      = Inl (TransportException (Text ''Read timed out.'') None)
   \<and> (\<lambda>req. Inl (RequestException ''Read timed out.''))
        (Put ''u'' (PDict []) (headers \<lparr>priv_token = None, priv_host = None\<rparr>) 30)
      = Inl (RequestException ''Read timed out.'')
   \<and> fst (put_json (\<lambda>req. Inl (RequestException ''Read timed out.'')) (\<lambda>s. Inr PNone)
            (\<lambda>msg code. []) \<lparr>priv_token = None, priv_host = None\<rparr> ''u'' (PDict []))
      = Inl (TransportException (Text ''Read timed out.'') None)"
  using requests_use_fixed_timeout
      [of "\<lambda>req. Inl (RequestException ''Read timed out.'')"
          "\<lparr>priv_token = None, priv_host = None\<rparr>" "''u''" PNone
          "\<lambda>s. Inr PNone" "PDict []" PNone "\<lambda>msg code. []" "''Read timed out.''"]
  by simp

subsection \<open>The setters\<close>

text \<open>
  Claim C9. \<^verbatim>\<open>set_host\<close> changes the stored host of the instance and nothing else: its
  token and every other instance stay as they were. \<^verbatim>\<open>set_token\<close> changes the stored
  token and nothing else: the host and every other instance stay as they were; it returns
  the instance it was called on.
\<close>

theorem setters_frame:
  "priv_token (set_host resolve_host self hostname port hp self) = priv_token (hp self)
   \<and> host (set_host resolve_host self hostname port hp self) = Some (resolve_host hostname port)
   \<and> (other \<noteq> self \<longrightarrow> set_host resolve_host self hostname port hp other = hp other)
   \<and> priv_host (snd (set_token self tok hp) self) = priv_host (hp self)
   \<and> priv_token (snd (set_token self tok hp) self) = tok
   \<and> (other \<noteq> self \<longrightarrow> snd (set_token self tok hp) other = hp other)
   \<and> fst (set_token self tok hp) = self"
  by (simp add: set_host_def set_token_def host_def)

theorem setters_frame_witness:
  "priv_token (set_host (\<lambda>h p. ''http://'' @ h) 0 ''example.com'' 8080
       (\<lambda>r. \<lparr>priv_token = Some ''abc'', priv_host = None\<rparr>) 0) = Some ''abc''
   \<and> host (set_host (\<lambda>h p. ''http://'' @ h) 0 ''example.com'' 8080
       (\<lambda>r. \<lparr>priv_token = Some ''abc'', priv_host = None\<rparr>) 0) = Some ''http://example.com''
   \<and> (1::nat) \<noteq> 0
   \<and> set_host (\<lambda>h p. ''http://'' @ h) 0 ''example.com'' 8080
       (\<lambda>r. \<lparr>priv_token = Some ''abc'', priv_host = None\<rparr>) 1
      = \<lparr>priv_token = Some ''abc'', priv_host = None\<rparr>
   \<and> priv_host (snd (set_token 0 (Some ''xyz'')
       (\<lambda>r. \<lparr>priv_token = Some ''abc'', priv_host = None\<rparr>)) 0) = None
   \<and> priv_token (snd (set_token 0 (Some ''xyz'')
       (\<lambda>r. \<lparr>priv_token = Some ''abc'', priv_host = None\<rparr>)) 0) = Some ''xyz''
   \<and> snd (set_token 0 (Some ''xyz'')
       (\<lambda>r. \<lparr>priv_token = Some ''abc'', priv_host = None\<rparr>)) 1
      = \<lparr>priv_token = Some ''abc'', priv_host = None\<rparr>
   \<and> fst (set_token 0 (Some ''xyz'')
       (\<lambda>r. \<lparr>priv_token = Some ''abc'', priv_host = None\<rparr>)) = 0"
  using setters_frame
      [of "\<lambda>h p. ''http://'' @ h" 0 "''example.com''" 8080
          "\<lambda>r. \<lparr>priv_token = Some ''abc'', priv_host = None\<rparr>" 1 "Some ''xyz''"]
  by simp

end
